theory Spec2Isabelle
  imports Main "HOL-Library.Sublist" "HOL-Library.Signed_Division"
begin

section \<open>Strings as the Go code uses them\<close>

text \<open>
  A Go \<open>string\<close> is a sequence of bytes; it is modelled as \<open>string\<close> (a list of
  \<open>char\<close>). The helpers below are the functions of package \<open>strings\<close> and \<open>fmt\<close>
  that \<open>selector.go\<close> calls.
\<close>

definition isSpace :: "char \<Rightarrow> bool" where
  \<comment> \<open>The ASCII white space of \<open>strings.TrimSpace\<close>: tab, line feed, vertical tab, form feed,
      carriage return, space.\<close>
  "isSpace c = (c \<in> set [CHR 0x09, CHR 0x0A, CHR 0x0B, CHR 0x0C, CHR 0x0D, CHR 0x20])"

definition TrimSpace :: "string \<Rightarrow> string" where
  "TrimSpace s = rev (dropWhile isSpace (rev (dropWhile isSpace s)))"

fun SplitLines :: "string \<Rightarrow> string list" where
  \<comment> \<open>\<open>strings.Split(s, "\n")\<close>: never empty, \<open>""\<close> splits to \<open>[""]\<close>.\<close>
  "SplitLines [] = [[]]"
| "SplitLines (c # cs) =
     (if c = CHR 0x0A then [] # SplitLines cs
      else (case SplitLines cs of [] \<Rightarrow> [[c]] | l # ls \<Rightarrow> (c # l) # ls))"

fun JoinLines :: "string list \<Rightarrow> string" where
  \<comment> \<open>\<open>strings.Join(lines, "\n")\<close>\<close>
  "JoinLines [] = []"
| "JoinLines [l] = l"
| "JoinLines (l # ls) = l @ [CHR 0x0A] @ JoinLines ls"

definition HasPrefix :: "string \<Rightarrow> string \<Rightarrow> bool" where
  "HasPrefix s p = (take (length p) s = p)"

definition TrimPrefix :: "string \<Rightarrow> string \<Rightarrow> string" where
  "TrimPrefix s p = (if HasPrefix s p then drop (length p) s else s)"

fun Contains :: "string \<Rightarrow> string \<Rightarrow> bool" where
  \<comment> \<open>\<open>strings.Contains(s, sub)\<close>: \<open>sub\<close> occurs at some offset of \<open>s\<close>.\<close>
  "Contains [] sub = (sub = [])"
| "Contains (c # cs) sub = (HasPrefix (c # cs) sub \<or> Contains cs sub)"

fun natDigits :: "nat \<Rightarrow> string" where
  "natDigits n =
     (if n < 10 then [''0123456789'' ! n]
      else natDigits (n div 10) @ [''0123456789'' ! (n mod 10)])"

declare natDigits.simps [simp del]

definition Itoa :: "int \<Rightarrow> string" where
  \<comment> \<open>The verb \<open>%d\<close> of \<open>fmt.Sprintf\<close>.\<close>
  "Itoa i = (if i < 0 then CHR ''-'' # natDigits (nat (- i)) else natDigits (nat i))"

definition goRem :: "int \<Rightarrow> int \<Rightarrow> int" where
  \<comment> \<open>Go's \<open>%\<close> on \<open>int\<close>: the remainder of the truncated division, with the sign of the
      dividend. The caller checks for a zero divisor, where Go panics.\<close>
  "goRem a b = a smod b"

section \<open>Sanitizing the editor's output\<close>

text \<open>
  The table of \<open>TestSanitizeEditorContent\<close> (inputs and expected outputs), row by row.
\<close>

definition TestSanitizeEditorContent_tests :: "(string \<times> string) list" where
  "TestSanitizeEditorContent_tests =
    [('''', ''''),
     (''Line 1\<newline>Line 2\<newline>Line 3'', ''Line 1\<newline>Line 2\<newline>Line 3''),
     (''# Comment 1\<newline># Comment 2'', ''''),
     (''User content\<newline># This is a comment\<newline>More content'',
      ''User content\<newline># This is a comment\<newline>More content''),
     (''# Header comment\<newline>Actual content'', ''# Header comment\<newline>Actual content''),
     (''Content here\<newline># Footer comment'', ''Content here''),
     (''  \<newline>\<newline>Content\<newline>\<newline>  '', ''Content''),
     (''Line 1\<newline>\<newline>Line 2'', ''Line 1\<newline>\<newline>Line 2''),
     (''> @author wrote:\<newline>>\<newline>> Original comment\<newline>\<newline>My reply here\<newline># Write your comment above. Lines starting with # are ignored.\<newline>'',
      ''> @author wrote:\<newline>>\<newline>> Original comment\<newline>\<newline>My reply here''),
     (''Code with # comment'', ''Code with # comment''),
     (''# Heading\<newline>Content'', ''# Heading\<newline>Content''),
     (''# Heading\<newline>Content\<newline># Template comment'', ''# Heading\<newline>Content'')]"

definition isCommentLine :: "string \<Rightarrow> bool" where
  "isCommentLine l = HasPrefix l ''#''"

definition SanitizeEditorContent_spec :: "string \<Rightarrow> string" where
  \<comment> \<open>Modelled from the spec: the sanitization in the words of the specification, "lines
      beginning with a comment marker (#) are stripped, surrounding whitespace trimmed".
      It is kept beside \<open>SanitizeEditorContent\<close> to be compared with it.\<close>
  "SanitizeEditorContent_spec content =
     TrimSpace (JoinLines (filter (\<lambda>l. \<not> isCommentLine l) (SplitLines content)))"

definition isTrailer :: "string \<Rightarrow> bool" where
  "isTrailer l = (TrimSpace l = [] \<or> isCommentLine l)"

definition SanitizeEditorContent :: "string \<Rightarrow> string" where
  \<comment> \<open>Modelled from the spec: the body of \<open>SanitizeEditorContent\<close> is not among the sources;
      its test table \<open>TestSanitizeEditorContent\<close> and the design note ("strips trailing
      \<open># comment\<close> lines from editor output") are. The model follows the specification's three
      steps (strip comment lines, trim surrounding white space, empty means cancelled), with
      the stripping applied to the trailing block of comment and blank lines only, which is
      what the rows "# at start preserved", "mixed content with # in middle preserved" and
      "markdown heading preserved" of the test table require.\<close>
  "SanitizeEditorContent content =
     TrimSpace (JoinLines (rev (dropWhile isTrailer (rev (SplitLines content)))))"

section \<open>The reaction catalog\<close>

definition reactionEmojis :: "(string \<times> string) list" where
  \<comment> \<open>pairs \<open>(name, display)\<close>\<close>
  "reactionEmojis =
    [(''+1'', ''+1''), (''-1'', ''-1''), (''laugh'', ''laugh''), (''confused'', ''confused''),
     (''heart'', ''heart''), (''hooray'', ''hooray''), (''rocket'', ''rocket''), (''eyes'', ''eyes'')]"

section \<open>Messages, commands and the outside world\<close>

text \<open>
  A Go \<open>error\<close> is represented by its message (\<open>err.Error()\<close>), the only thing the engine
  reads of it. A callback of type \<open>func(T) (string, error)\<close> returns \<open>Inl\<close> of the message
  when its error is not nil, and \<open>Inr\<close> of its value otherwise: the engine reads the value only
  after it has found the error nil.
\<close>

type_synonym error = string

datatype status = Plain string | Red string | Green string
  \<comment> \<open>the text of a status line: as it is, or through \<open>Colorize(ColorRed, _)\<close>,
      \<open>Colorize(ColorGreen, _)\<close>\<close>

datatype cmd =
    NoCmd \<comment> \<open>\<open>nil\<close>\<close>
  | Quit \<comment> \<open>\<open>tea.Quit\<close>\<close>
  | NewStatusMessage status \<comment> \<open>\<open>m.list.NewStatusMessage(s)\<close>\<close>
  | LoadDetailCmd \<comment> \<open>the closure that returns \<open>loadDetailMsg{}\<close>\<close>
  | RefreshCmd \<comment> \<open>the closure that calls \<open>RefreshItems\<close> and returns \<open>refreshFinishedMsg\<close>\<close>
  | ExecEditor string "string list" \<comment> \<open>\<open>tea.ExecProcess\<close> of the editor, then \<open>editorFinishedMsg\<close>\<close>
  | ExecAgent string "string list" \<comment> \<open>\<open>tea.ExecProcess\<close> of the agent, then \<open>agentFinishedMsg\<close>\<close>
  | LibCmd nat \<comment> \<open>a command of the list or viewport widget\<close>
  | Batch "cmd list" \<comment> \<open>\<open>tea.Batch\<close>\<close>

datatype 'a msg =
    WindowSizeMsg int int \<comment> \<open>width, height\<close>
  | loadDetailMsg
  | refreshFinishedMsg "'a list option" "error option"
      \<comment> \<open>\<open>items\<close> (\<open>None\<close>: not a \<open>[]T\<close>) and \<open>err\<close>\<close>
  | editorFinishedMsg "error option"
  | agentFinishedMsg "error option"
  | KeyMsg string \<comment> \<open>a key press, by its \<open>msg.String()\<close>\<close>
  | OtherMsg nat \<comment> \<open>any other message\<close>

datatype panic = IndexOutOfRange | DivideByZero | SliceBoundsOutOfRange

record world =
  files :: "string \<rightharpoonup> string" \<comment> \<open>the files by path, with their content\<close>
  createTemp :: "nat \<Rightarrow> error + string" \<comment> \<open>what the n-th \<open>os.CreateTemp\<close> does: fails, or creates this path\<close>
  tempCount :: nat \<comment> \<open>how many times \<open>os.CreateTemp\<close> was called\<close>
  writeError :: "error option" \<comment> \<open>whether \<open>WriteString\<close> fails\<close>
  EDITOR :: string \<comment> \<open>\<open>os.Getenv("EDITOR")\<close>\<close>
  GH_PRREVIEW_AGENT :: string \<comment> \<open>\<open>os.Getenv("GH_PRREVIEW_AGENT")\<close>\<close>
  calls :: "string list" \<comment> \<open>the callbacks of the options invoked so far, by field name\<close>

definition call :: "string \<Rightarrow> world \<Rightarrow> world" where
  "call name w = w\<lparr>calls := calls w @ [name]\<rparr>"

record 'a ItemRenderer =
  PreviewWithHighlight :: "'a \<Rightarrow> int \<Rightarrow> string"
  ThreadCommentCount :: "'a \<Rightarrow> int"
  ThreadCommentPreview :: "'a \<Rightarrow> int \<Rightarrow> string"
  WithSelectedComment :: "'a \<Rightarrow> int \<Rightarrow> 'a"

record 'a SelectorOptions =
  Items :: "'a list"
  Renderer :: "'a ItemRenderer"
  OnSelect :: "('a \<Rightarrow> error + string) option"
  OnOpen :: "('a \<Rightarrow> error + string) option"
  FilterFunc :: "('a \<Rightarrow> bool \<Rightarrow> bool) option"
  FilterDefault :: bool
  RefreshItems :: "(unit \<Rightarrow> error + 'a list) option"
  ResolveAction :: "('a \<Rightarrow> error + string) option"
  ResolveCommentPrepare :: "('a \<Rightarrow> error + string) option"
  ResolveCommentComplete :: "('a \<Rightarrow> string \<Rightarrow> error + string) option"
  QuotePrepare :: "('a \<Rightarrow> error + string) option"
  QuoteComplete :: "('a \<Rightarrow> string \<Rightarrow> error + string) option"
  QuoteContextPrepare :: "('a \<Rightarrow> error + string) option"
  QuoteContextComplete :: "('a \<Rightarrow> string \<Rightarrow> error + string) option"
  AgentAction :: "('a \<Rightarrow> error + string) option"
  EditAction :: "('a \<Rightarrow> error + string) option"
  ReactionAction :: "('a \<Rightarrow> error + int) option"
  ReactionComplete :: "(int \<Rightarrow> string \<Rightarrow> error + string) option"

text \<open>
  The list and the viewport are widgets of the \<open>bubbles\<close> library, not of this
  repository: their state is a type parameter (\<open>'l\<close>, \<open>'v\<close>) and their operations are
  taken as given, together with the zero value of the item type \<open>T\<close>.
\<close>

record ('a, 'l, 'v) library =
  zeroT :: 'a
  list_New :: "'a list \<Rightarrow> 'l"
  list_SelectedItem :: "'l \<Rightarrow> 'a option"
  list_SettingFilter :: "'l \<Rightarrow> bool"
  list_Index :: "'l \<Rightarrow> int"
  list_SetSize :: "int \<Rightarrow> int \<Rightarrow> 'l \<Rightarrow> 'l"
  list_SetItems :: "'a list \<Rightarrow> 'l \<Rightarrow> 'l \<times> cmd"
  list_SetItem :: "int \<Rightarrow> 'a \<Rightarrow> 'l \<Rightarrow> 'l"
  list_Update :: "'a msg \<Rightarrow> 'l \<Rightarrow> 'l \<times> cmd"
  viewport_Zero :: 'v
  viewport_New :: "int \<Rightarrow> int \<Rightarrow> 'v"
  viewport_SetContent :: "string \<Rightarrow> 'v \<Rightarrow> 'v"
  viewport_GotoTop :: "'v \<Rightarrow> 'v"
  viewport_PageDown :: "'v \<Rightarrow> 'v"
  viewport_PageUp :: "'v \<Rightarrow> 'v"
  viewport_SetYOffset :: "int \<Rightarrow> 'v \<Rightarrow> 'v"
  viewport_Update :: "'a msg \<Rightarrow> 'v \<Rightarrow> 'v \<times> cmd"

section \<open>The selection model\<close>

record ('a, 'l, 'v) SelectionModel =
  list_m :: 'l \<comment> \<open>the field \<open>list\<close>\<close>
  items :: "'a list"
  result :: "'a list"
  filterActive :: bool
  showDetail :: bool
  loadingDetail :: bool
  showHelp :: bool
  confirmationMessage :: string
  refreshing :: bool
  viewport :: 'v
  windowSize :: "int \<times> int" \<comment> \<open>width, height\<close>
  reactionMode :: bool
  reactionIdx :: int
  reactionCommentID :: int
  commentSelectMode :: bool
  commentSelectAction :: string
  commentSelectIdx :: int
  commentSelectItem :: 'a
  commentSelectInDetail :: bool
  commentSelectStatus :: string
  pendingEditorItem :: 'a
  pendingEditorTmpFile :: string
  pendingEditorAction :: int

type_synonym ('a, 'l, 'v) state = "('a, 'l, 'v) SelectionModel \<times> world"

text \<open>
  The mode the engine is in, read off the model in the order in which \<open>Update\<close> and \<open>View\<close>
  test its fields. While an editor runs the user interface is suspended and no field marks
  it: that mode is the time between the command \<open>ExecEditor\<close> and the message
  \<open>editorFinishedMsg\<close>.
\<close>

datatype Mode = Normal | Detail | ThreadPick | ReactionPick | Confirmation | HelpOverlay

definition modeOf :: "('a, 'l, 'v) SelectionModel \<Rightarrow> Mode" where
  "modeOf m =
     (if showHelp m then HelpOverlay
      else if confirmationMessage m \<noteq> '''' then Confirmation
      else if reactionMode m then ReactionPick
      else if commentSelectMode m then ThreadPick
      else if showDetail m then Detail
      else Normal)"

section \<open>Editor sessions\<close>

definition editorName :: "world \<Rightarrow> string" where
  "editorName w = (if EDITOR w = '''' then ''vim'' else EDITOR w)"

definition editInEditor :: "string \<Rightarrow> int \<Rightarrow> world \<Rightarrow> cmd" where
  "editInEditor filePath line w =
     (if line > 0 then ExecEditor (editorName w) [CHR ''+'' # Itoa line, filePath]
      else ExecEditor (editorName w) [filePath])"

definition preparerOf ::
  "'a SelectorOptions \<Rightarrow> int \<Rightarrow> (string \<times> ('a \<Rightarrow> error + string)) option" where
  \<comment> \<open>the \<open>switch action\<close> of \<open>startEditorForAction\<close>, with the name of the field chosen\<close>
  "preparerOf opts action =
     (if action = 2 then map_option (Pair ''ResolveCommentPrepare'') (ResolveCommentPrepare opts)
      else if action = 3 then map_option (Pair ''QuotePrepare'') (QuotePrepare opts)
      else if action = 4 then map_option (Pair ''QuoteContextPrepare'') (QuoteContextPrepare opts)
      else None)"

definition startEditorForAction ::
  "'a SelectorOptions \<Rightarrow> 'a \<Rightarrow> int \<Rightarrow> ('a, 'l, 'v) state \<Rightarrow> ('a, 'l, 'v) state \<times> cmd" where
  "startEditorForAction opts item action s =
     (case s of (m, w) \<Rightarrow>
      (case preparerOf opts action of
         None \<Rightarrow> (s, NoCmd)
       | Some (name, preparer) \<Rightarrow>
          (let w0 = call name w in
           case preparer item of
             Inl err \<Rightarrow> ((m, w0), NewStatusMessage (Red err))
           | Inr content \<Rightarrow>
              (let w1 = w0\<lparr>tempCount := Suc (tempCount w0)\<rparr> in
               case createTemp w0 (tempCount w0) of
                 Inl err \<Rightarrow>
                   ((m, w1), NewStatusMessage (Red (''Failed to create temp file: '' @ err)))
               | Inr tmpFile \<Rightarrow>
                  (let w2 = w1\<lparr>files := (files w1)(tmpFile \<mapsto> '''')\<rparr> in
                   case writeError w2 of
                     Some err \<Rightarrow>
                       ((m, w2), NewStatusMessage (Red (''Failed to write temp file: '' @ err)))
                   | None \<Rightarrow>
                       ((m\<lparr>pendingEditorItem := item,
                           pendingEditorTmpFile := tmpFile,
                           pendingEditorAction := action\<rparr>,
                         w2\<lparr>files := (files w2)(tmpFile \<mapsto> content)\<rparr>),
                        ExecEditor (editorName w2) [tmpFile]))))))"

definition completerOf ::
  "'a SelectorOptions \<Rightarrow> int \<Rightarrow> (string \<times> ('a \<Rightarrow> string \<Rightarrow> error + string)) option" where
  \<comment> \<open>the \<open>switch m.pendingEditorAction\<close> of \<open>handleEditorFinished\<close>\<close>
  "completerOf opts action =
     (if action = 2 then map_option (Pair ''ResolveCommentComplete'') (ResolveCommentComplete opts)
      else if action = 3 then map_option (Pair ''QuoteComplete'') (QuoteComplete opts)
      else if action = 4 then map_option (Pair ''QuoteContextComplete'') (QuoteContextComplete opts)
      else None)"

definition pressAnyKey :: "string \<Rightarrow> string" where
  \<comment> \<open>\<open>fmt.Sprintf("%s\n\nPress any key to continue...", s)\<close>\<close>
  "pressAnyKey s = s @ ''\<newline>\<newline>Press any key to continue...''"

definition handleEditorFinished ::
  "'a SelectorOptions \<Rightarrow> error option \<Rightarrow> ('a, 'l, 'v) state \<Rightarrow> ('a, 'l, 'v) state \<times> cmd" where
  "handleEditorFinished opts err s =
     (case s of (m, w) \<Rightarrow>
      (case err of
         Some e \<Rightarrow> (s, NewStatusMessage (Red (''Editor error: '' @ e)))
       | None \<Rightarrow>
          if pendingEditorTmpFile m = '''' then (s, NoCmd)
          else
            (let content = files w (pendingEditorTmpFile m);
                 w1 = w\<lparr>files := (files w)(pendingEditorTmpFile m := None)\<rparr>;
                 m1 = m\<lparr>pendingEditorTmpFile := ''''\<rparr>
             in case content of
                  None \<Rightarrow>
                    ((m1, w1), NewStatusMessage (Red (''Failed to read temp file: open ''
                       @ pendingEditorTmpFile m @ '': no such file or directory'')))
                | Some text \<Rightarrow>
                   (let sanitized = SanitizeEditorContent text in
                    if sanitized = '''' then
                      ((m1, w1), NewStatusMessage (Plain ''Cancelled (empty content)''))
                    else
                      (case completerOf opts (pendingEditorAction m1) of
                         None \<Rightarrow> ((m1, w1), NoCmd)
                       | Some (name, completer) \<Rightarrow>
                          (let w2 = call name w1 in
                           case completer (pendingEditorItem m1) sanitized of
                             Inl e \<Rightarrow> ((m1, w2), NewStatusMessage (Red e))
                           | Inr res \<Rightarrow>
                               if Contains res ''https://'' then
                                 ((m1\<lparr>confirmationMessage := pressAnyKey res\<rparr>, w2), NoCmd)
                               else if res \<noteq> '''' then
                                 ((m1, w2), NewStatusMessage (Plain res))
                               else ((m1, w2), NoCmd)))))))"

section \<open>Launching the agent, opening a file\<close>

fun fieldsFrom :: "string \<Rightarrow> string \<Rightarrow> string list" where
  \<comment> \<open>the first argument is the current field, reversed\<close>
  "fieldsFrom acc [] = (if acc = [] then [] else [rev acc])"
| "fieldsFrom acc (c # cs) =
     (if isSpace c then (if acc = [] then fieldsFrom [] cs else rev acc # fieldsFrom [] cs)
      else fieldsFrom (c # acc) cs)"

definition Fields :: "string \<Rightarrow> string list" where
  \<comment> \<open>\<open>strings.Fields\<close>\<close>
  "Fields s = fieldsFrom [] s"

definition launchAgent :: "string \<Rightarrow> world \<Rightarrow> panic + cmd" where
  \<comment> \<open>\<open>parts[1:]\<close> panics when \<open>parts\<close> is empty (an agent variable of white space only)\<close>
  "launchAgent prompt w =
     (let agent = (if GH_PRREVIEW_AGENT w = '''' then ''claude'' else GH_PRREVIEW_AGENT w) in
      case Fields agent of
        [] \<Rightarrow> Inl SliceBoundsOutOfRange
      | p # ps \<Rightarrow> Inr (ExecAgent p (ps @ [prompt])))"

definition SplitN2 :: "string \<Rightarrow> string list" where
  \<comment> \<open>\<open>strings.SplitN(s, ":", 2)\<close>\<close>
  "SplitN2 s =
     (if CHR '':'' \<in> set s
      then [takeWhile (\<lambda>c. c \<noteq> CHR '':'') s, tl (dropWhile (\<lambda>c. c \<noteq> CHR '':'') s)]
      else [s])"

definition isDigit :: "char \<Rightarrow> bool" where
  "isDigit c = (c \<in> set ''0123456789'')"

fun scanDigits :: "string \<Rightarrow> int \<Rightarrow> int" where
  "scanDigits [] acc = acc"
| "scanDigits (c # cs) acc =
     (if isDigit c then scanDigits cs (acc * 10 + (of_char c - 48)) else acc)"

definition Sscanf_d :: "string \<Rightarrow> int" where
  \<comment> \<open>\<open>lineNum := 0; fmt.Sscanf(s, "%d", &lineNum)\<close>: the decimal integer at the start of
      \<open>s\<close>, and 0 when there is none\<close>
  "Sscanf_d s =
     (case dropWhile isSpace s of
        [] \<Rightarrow> 0
      | c # cs \<Rightarrow>
          if c = CHR ''-'' then - scanDigits cs 0
          else if c = CHR ''+'' then scanDigits cs 0
          else scanDigits (c # cs) 0)"

definition editFileTarget :: "string \<Rightarrow> (string \<times> int) option" where
  \<comment> \<open>the test of the prefix \<open>EDIT_FILE:\<close> and of \<open>len(parts) == 2\<close> in the \<open>e\<close> cases\<close>
  "editFileTarget res =
     (if HasPrefix res ''EDIT_FILE:'' then
        (case SplitN2 (TrimPrefix res ''EDIT_FILE:'') of
           [p, l] \<Rightarrow> Some (p, Sscanf_d l)
         | _ \<Rightarrow> None)
      else None)"

section \<open>Choosing a comment of a thread, choosing a reaction\<close>

definition selectStatus :: "int \<Rightarrow> int \<Rightarrow> string \<Rightarrow> string \<Rightarrow> string" where
  \<comment> \<open>\<open>fmt.Sprintf("[%d/%d] %s (%s=next, Enter=select, Esc=cancel)", n, count, preview, action)\<close>\<close>
  "selectStatus n count preview action =
     ''['' @ Itoa n @ ''/'' @ Itoa count @ ''] '' @ preview
       @ '' ('' @ action @ ''=next, Enter=select, Esc=cancel)''"

definition enterCommentSelectMode ::
  "'a SelectorOptions \<Rightarrow> string \<Rightarrow> 'a \<Rightarrow> ('a, 'l, 'v) SelectionModel \<Rightarrow> ('a, 'l, 'v) SelectionModel" where
  "enterCommentSelectMode opts action item m =
     m\<lparr>commentSelectMode := True,
       commentSelectAction := action,
       commentSelectIdx := 0,
       commentSelectItem := item,
       commentSelectInDetail := False,
       commentSelectStatus :=
         selectStatus 1 (ThreadCommentCount (Renderer opts) item)
           (ThreadCommentPreview (Renderer opts) item 0) action\<rparr>"

definition cycleCommentSelection ::
  "'a SelectorOptions \<Rightarrow> ('a, 'l, 'v) SelectionModel \<Rightarrow> panic + ('a, 'l, 'v) SelectionModel" where
  "cycleCommentSelection opts m =
     (let count = ThreadCommentCount (Renderer opts) (commentSelectItem m) in
      if count = 0 then Inl DivideByZero
      else
        (let idx = goRem (commentSelectIdx m + 1) count in
         Inr (m\<lparr>commentSelectIdx := idx,
                commentSelectStatus :=
                  selectStatus (idx + 1) count
                    (ThreadCommentPreview (Renderer opts) (commentSelectItem m) idx)
                    (commentSelectAction m)\<rparr>)))"

definition exitCommentSelectMode ::
  "('a, 'l, 'v) SelectionModel \<Rightarrow> ('a, 'l, 'v) SelectionModel" where
  "exitCommentSelectMode m =
     m\<lparr>commentSelectMode := False,
       commentSelectAction := '''',
       commentSelectIdx := 0,
       commentSelectInDetail := False,
       commentSelectStatus := ''''\<rparr>"

fun findSelected :: "string list \<Rightarrow> int \<Rightarrow> int option" where
  \<comment> \<open>the index of the first line that contains \<open>SELECTED\<close>\<close>
  "findSelected [] i = None"
| "findSelected (l # ls) i = (if Contains l ''SELECTED'' then Some i else findSelected ls (i + 1))"

definition updateDetailViewWithHighlight ::
  "('a, 'l, 'v) library \<Rightarrow> 'a SelectorOptions \<Rightarrow> ('a, 'l, 'v) SelectionModel
     \<Rightarrow> ('a, 'l, 'v) SelectionModel" where
  "updateDetailViewWithHighlight W opts m =
     (if \<not> showDetail m then m
      else
        (let content = PreviewWithHighlight (Renderer opts) (commentSelectItem m) (commentSelectIdx m);
             v = viewport_SetContent W content (viewport m)
         in case findSelected (SplitLines content) 0 of
              None \<Rightarrow> m\<lparr>viewport := v\<rparr>
            | Some i \<Rightarrow> m\<lparr>viewport := viewport_SetYOffset W (if i - 2 < 0 then 0 else i - 2) v\<rparr>))"

definition restoreDetailView ::
  "('a, 'l, 'v) library \<Rightarrow> 'a SelectorOptions \<Rightarrow> ('a, 'l, 'v) SelectionModel
     \<Rightarrow> ('a, 'l, 'v) SelectionModel" where
  \<comment> \<open>the block \<open>if m.commentSelectInDetail { ... SetContent(PreviewWithHighlight(item.value, -1)) }\<close>
      of the cases \<open>esc\<close> and \<open>default\<close> of the comment selection\<close>
  "restoreDetailView W opts m =
     (if commentSelectInDetail m then
        (case list_SelectedItem W (list_m m) of
           None \<Rightarrow> m
         | Some item \<Rightarrow>
             m\<lparr>viewport := viewport_SetContent W
                  (PreviewWithHighlight (Renderer opts) item (- 1)) (viewport m)\<rparr>)
      else m)"

definition emojiAt :: "int \<Rightarrow> panic + (string \<times> string)" where
  \<comment> \<open>\<open>reactionEmojis[i]\<close>\<close>
  "emojiAt i =
     (if 0 \<le> i \<and> i < int (length reactionEmojis) then Inr (reactionEmojis ! nat i)
      else Inl IndexOutOfRange)"

definition enterReactionMode ::
  "int \<Rightarrow> ('a, 'l, 'v) SelectionModel \<Rightarrow> ('a, 'l, 'v) SelectionModel" where
  "enterReactionMode commentID m =
     m\<lparr>reactionMode := True, reactionIdx := 0, reactionCommentID := commentID\<rparr>"

definition showReactionStatus :: "('a, 'l, 'v) SelectionModel \<Rightarrow> panic + cmd" where
  "showReactionStatus m =
     (case emojiAt (reactionIdx m) of
        Inl p \<Rightarrow> Inl p
      | Inr (name, display) \<Rightarrow>
          Inr (NewStatusMessage (Plain (''React: ['' @ Itoa (reactionIdx m + 1) @ ''/''
                 @ Itoa (int (length reactionEmojis)) @ ''] '' @ display
                 @ '' (x=next, Enter=add, Esc=cancel)''))))"

definition runAgentAction ::
  "('a \<Rightarrow> error + string) \<Rightarrow> 'a \<Rightarrow> bool \<Rightarrow> ('a, 'l, 'v) state
     \<Rightarrow> panic + (('a, 'l, 'v) state \<times> cmd)" where
  \<comment> \<open>the call of \<open>AgentAction\<close> and what follows it, the same text in \<open>handleAgentKey\<close> and in
      the case \<open>a\<close> of \<open>executeCommentAction\<close>; the flag is \<open>inDetailView\<close>, \<open>wasInDetail\<close>\<close>
  "runAgentAction action item inDetail s =
     (case s of (m, w) \<Rightarrow>
      (let w0 = call ''AgentAction'' w in
       case action item of
         Inl err \<Rightarrow> Inr ((m, w0), NewStatusMessage (Red err))
       | Inr res \<Rightarrow>
           if HasPrefix res ''LAUNCH_AGENT:'' then
             (case launchAgent (TrimPrefix res ''LAUNCH_AGENT:'') w0 of
                Inl p \<Rightarrow> Inl p
              | Inr c \<Rightarrow> Inr (((if inDetail then m\<lparr>showDetail := False\<rparr> else m), w0), c))
           else if res \<noteq> '''' then Inr ((m, w0), NewStatusMessage (Plain res))
           else Inr ((m, w0), NoCmd)))"

definition handleQuoteKey ::
  "('a, 'l, 'v) library \<Rightarrow> 'a SelectorOptions \<Rightarrow> bool \<Rightarrow> ('a, 'l, 'v) state
     \<Rightarrow> ('a, 'l, 'v) state \<times> cmd" where
  "handleQuoteKey W opts inDetailView s =
     (case s of (m, w) \<Rightarrow>
      if QuotePrepare opts = None then (s, NoCmd)
      else
        (case list_SelectedItem W (list_m m) of
           None \<Rightarrow> (s, NoCmd)
         | Some item \<Rightarrow>
             if ThreadCommentCount (Renderer opts) item > 1 then
               (let m1 = enterCommentSelectMode opts ''Q'' item m;
                    m2 = (if inDetailView
                          then updateDetailViewWithHighlight W opts (m1\<lparr>commentSelectInDetail := True\<rparr>)
                          else m1)
                in ((m2, w), NewStatusMessage (Plain (commentSelectStatus m2))))
             else
               startEditorForAction opts item 3
                 ((if inDetailView then m\<lparr>showDetail := False\<rparr> else m), w)))"

definition handleQuoteContextKey ::
  "('a, 'l, 'v) library \<Rightarrow> 'a SelectorOptions \<Rightarrow> bool \<Rightarrow> ('a, 'l, 'v) state
     \<Rightarrow> ('a, 'l, 'v) state \<times> cmd" where
  "handleQuoteContextKey W opts inDetailView s =
     (case s of (m, w) \<Rightarrow>
      if QuoteContextPrepare opts = None then (s, NoCmd)
      else
        (case list_SelectedItem W (list_m m) of
           None \<Rightarrow> (s, NoCmd)
         | Some item \<Rightarrow>
             if ThreadCommentCount (Renderer opts) item > 1 then
               (let m1 = enterCommentSelectMode opts ''C'' item m;
                    m2 = (if inDetailView
                          then updateDetailViewWithHighlight W opts (m1\<lparr>commentSelectInDetail := True\<rparr>)
                          else m1)
                in ((m2, w), NewStatusMessage (Plain (commentSelectStatus m2))))
             else
               startEditorForAction opts item 4
                 ((if inDetailView then m\<lparr>showDetail := False\<rparr> else m), w)))"

definition handleAgentKey ::
  "('a, 'l, 'v) library \<Rightarrow> 'a SelectorOptions \<Rightarrow> bool \<Rightarrow> ('a, 'l, 'v) state
     \<Rightarrow> panic + (('a, 'l, 'v) state \<times> cmd)" where
  "handleAgentKey W opts inDetailView s =
     (case s of (m, w) \<Rightarrow>
      (case AgentAction opts of
         None \<Rightarrow> Inr (s, NoCmd)
       | Some action \<Rightarrow>
          (case list_SelectedItem W (list_m m) of
             None \<Rightarrow> Inr (s, NoCmd)
           | Some item \<Rightarrow>
               if ThreadCommentCount (Renderer opts) item > 1 then
                 (let m1 = enterCommentSelectMode opts ''a'' item m;
                      m2 = (if inDetailView
                            then updateDetailViewWithHighlight W opts (m1\<lparr>commentSelectInDetail := True\<rparr>)
                            else m1)
                  in Inr ((m2, w), NewStatusMessage (Plain (commentSelectStatus m2))))
               else runAgentAction action item inDetailView s)))"

definition handleReactionKey ::
  "('a, 'l, 'v) library \<Rightarrow> 'a SelectorOptions \<Rightarrow> bool \<Rightarrow> ('a, 'l, 'v) state
     \<Rightarrow> panic + (('a, 'l, 'v) state \<times> cmd)" where
  "handleReactionKey W opts inDetailView s =
     (case s of (m, w) \<Rightarrow>
      (case ReactionAction opts of
         None \<Rightarrow> Inr (s, NoCmd)
       | Some action \<Rightarrow>
          (case list_SelectedItem W (list_m m) of
             None \<Rightarrow> Inr (s, NoCmd)
           | Some item \<Rightarrow>
               if ThreadCommentCount (Renderer opts) item > 1
                  \<and> (\<not> inDetailView \<or> (inDetailView \<and> \<not> commentSelectMode m)) then
                 (let m1 = enterCommentSelectMode opts ''x'' item m;
                      m2 = (if inDetailView
                            then updateDetailViewWithHighlight W opts (m1\<lparr>commentSelectInDetail := True\<rparr>)
                            else m1)
                  in Inr ((m2, w), NewStatusMessage (Plain (commentSelectStatus m2))))
               else
                 (let w0 = call ''ReactionAction'' w in
                  case action item of
                    Inl err \<Rightarrow> Inr ((m, w0), NewStatusMessage (Red err))
                  | Inr commentID \<Rightarrow>
                      (let m1 = enterReactionMode commentID m in
                       case showReactionStatus m1 of
                         Inl p \<Rightarrow> Inl p
                       | Inr c \<Rightarrow> Inr ((m1, w0), c))))))"

definition executeCommentAction ::
  "'a SelectorOptions \<Rightarrow> ('a, 'l, 'v) state \<Rightarrow> panic + (('a, 'l, 'v) state \<times> cmd)" where
  "executeCommentAction opts s =
     (case s of (m, w) \<Rightarrow>
      (let itemWithSelection =
             WithSelectedComment (Renderer opts) (commentSelectItem m) (commentSelectIdx m);
           m0 = m\<lparr>commentSelectItem := itemWithSelection\<rparr>;
           action = commentSelectAction m0;
           wasInDetail = commentSelectInDetail m0;
           m1 = exitCommentSelectMode m0
       in
         if action = ''Q'' then
           Inr (startEditorForAction opts itemWithSelection 3
                  ((if wasInDetail then m1\<lparr>showDetail := False\<rparr> else m1), w))
         else if action = ''C'' then
           Inr (startEditorForAction opts itemWithSelection 4
                  ((if wasInDetail then m1\<lparr>showDetail := False\<rparr> else m1), w))
         else if action = ''a'' then
           (case AgentAction opts of
              None \<Rightarrow> Inr ((m1, w), NoCmd)
            | Some act \<Rightarrow> runAgentAction act itemWithSelection wasInDetail (m1, w))
         else if action = ''x'' then
           (case ReactionAction opts of
              None \<Rightarrow> Inr ((m1, w), NoCmd)
            | Some act \<Rightarrow>
               (let w0 = call ''ReactionAction'' w in
                case act itemWithSelection of
                  Inl err \<Rightarrow> Inr ((m1, w0), NewStatusMessage (Red err))
                | Inr commentID \<Rightarrow>
                    (let m2 = enterReactionMode commentID m1 in
                     case showReactionStatus m2 of
                       Inl p \<Rightarrow> Inl p
                     | Inr c \<Rightarrow> Inr ((m2, w0), c))))
         else Inr ((m1, w), NoCmd)))"

section \<open>Update\<close>

text \<open>
  \<open>Update\<close> is one function in the source; it is cut here along its own blocks: the
  reaction mode, the comment selection, the detail view, the list view. Where the source
  writes \<open>return m, m.f(...)\<close> with a method \<open>f\<close> that changes \<open>m\<close> through its pointer,
  the model returned is the changed one (the call is evaluated before \<open>m\<close> is copied, which
  is what the Go compiler does and what the resolve-with-comment key relies on).
\<close>

definition updateVisibleItems ::
  "('a, 'l, 'v) library \<Rightarrow> 'a SelectorOptions \<Rightarrow> ('a, 'l, 'v) SelectionModel
     \<Rightarrow> ('a, 'l, 'v) SelectionModel" where
  "updateVisibleItems W opts m =
     m\<lparr>list_m := fst (list_SetItems W
        (filter (\<lambda>item. case FilterFunc opts of None \<Rightarrow> True | Some f \<Rightarrow> f item (filterActive m))
           (items m))
        (list_m m))\<rparr>"

definition listUpdate ::
  "('a, 'l, 'v) library \<Rightarrow> 'a msg \<Rightarrow> ('a, 'l, 'v) state \<Rightarrow> ('a, 'l, 'v) state \<times> cmd" where
  \<comment> \<open>\<open>m.list, cmd = m.list.Update(msg); return m, cmd\<close>\<close>
  "listUpdate W msg s =
     (case s of (m, w) \<Rightarrow>
      (let (l, c) = list_Update W msg (list_m m) in ((m\<lparr>list_m := l\<rparr>, w), c)))"

definition runCustomAction ::
  "string \<Rightarrow> ('a \<Rightarrow> error + string) \<Rightarrow> 'a \<Rightarrow> ('a, 'l, 'v) state \<Rightarrow> ('a, 'l, 'v) state \<times> cmd" where
  \<comment> \<open>\<open>statusMsg, err := action(item.value)\<close>, the error as a red status line, a status
      message that is not empty as a status line: the text of the \<open>o\<close> cases\<close>
  "runCustomAction name action item s =
     (case s of (m, w) \<Rightarrow>
      (let w0 = call name w in
       case action item of
         Inl err \<Rightarrow> ((m, w0), NewStatusMessage (Red err))
       | Inr statusMsg \<Rightarrow>
           if statusMsg \<noteq> '''' then ((m, w0), NewStatusMessage (Plain statusMsg))
           else ((m, w0), NoCmd)))"

definition updateReactionKey ::
  "'a SelectorOptions \<Rightarrow> string \<Rightarrow> ('a, 'l, 'v) state \<Rightarrow> panic + (('a, 'l, 'v) state \<times> cmd)" where
  "updateReactionKey opts k s =
     (case s of (m, w) \<Rightarrow>
      if k = ''enter'' then
        (case emojiAt (reactionIdx m) of
           Inl p \<Rightarrow> Inl p
         | Inr (emoji, display) \<Rightarrow>
            (let m1 = m\<lparr>reactionMode := False\<rparr> in
             case ReactionComplete opts of
               None \<Rightarrow> Inr ((m1, w), NoCmd)
             | Some complete \<Rightarrow>
                (let w0 = call ''ReactionComplete'' w in
                 case complete (reactionCommentID m1) emoji of
                   Inl err \<Rightarrow> Inr ((m1, w0), NewStatusMessage (Red err))
                 | Inr res \<Rightarrow> Inr ((m1\<lparr>confirmationMessage := pressAnyKey res\<rparr>, w0), NoCmd))))
      else if k = ''esc'' then
        Inr ((m\<lparr>reactionMode := False\<rparr>, w), NewStatusMessage (Plain ''Reaction cancelled''))
      else if k = ''x'' then
        (let m1 = m\<lparr>reactionIdx := goRem (reactionIdx m + 1) (int (length reactionEmojis))\<rparr> in
         case showReactionStatus m1 of
           Inl p \<Rightarrow> Inl p
         | Inr c \<Rightarrow> Inr ((m1, w), c))
      else
        Inr ((m\<lparr>reactionMode := False\<rparr>, w), NewStatusMessage (Plain ''Reaction cancelled'')))"

definition updateDetailKey ::
  "('a, 'l, 'v) library \<Rightarrow> 'a SelectorOptions \<Rightarrow> string \<Rightarrow> ('a, 'l, 'v) state
     \<Rightarrow> panic + (('a, 'l, 'v) state \<times> cmd)" where
  "updateDetailKey W opts k s =
     (case s of (m, w) \<Rightarrow>
      if k \<in> set [''esc'', ''backspace'', ''left'', ''h'', ''q''] then
        Inr ((m\<lparr>showDetail := False\<rparr>, w), NoCmd)
      else if k = ''ctrl+f'' then
        Inr ((m\<lparr>viewport := viewport_PageDown W (viewport m)\<rparr>, w), NoCmd)
      else if k = ''ctrl+b'' then
        Inr ((m\<lparr>viewport := viewport_PageUp W (viewport m)\<rparr>, w), NoCmd)
      else if k \<in> set [''r'', ''u''] then
        (case ResolveAction opts of
           None \<Rightarrow> Inr (s, NoCmd)
         | Some action \<Rightarrow>
            (case list_SelectedItem W (list_m m) of
               None \<Rightarrow> Inr (s, NoCmd)
             | Some item \<Rightarrow> Inr (runCustomAction ''ResolveAction'' action item (m\<lparr>showDetail := False\<rparr>, w))))
      else if k \<in> set [''R'', ''U''] then
        (if ResolveCommentPrepare opts = None then Inr (s, NoCmd)
         else
           (case list_SelectedItem W (list_m m) of
              None \<Rightarrow> Inr (s, NoCmd)
            | Some item \<Rightarrow> Inr (startEditorForAction opts item 2 (m\<lparr>showDetail := False\<rparr>, w))))
      else if k = ''Q'' then Inr (handleQuoteKey W opts True s)
      else if k = ''C'' then Inr (handleQuoteContextKey W opts True s)
      else if k = ''a'' then handleAgentKey W opts True s
      else if k = ''e'' then
        (case EditAction opts of
           None \<Rightarrow> Inr (s, NoCmd)
         | Some action \<Rightarrow>
            (case list_SelectedItem W (list_m m) of
               None \<Rightarrow> Inr (s, NoCmd)
             | Some item \<Rightarrow>
                (let w0 = call ''EditAction'' w in
                 case action item of
                   Inl err \<Rightarrow> Inr ((m, w0), NewStatusMessage (Red err))
                 | Inr res \<Rightarrow>
                    (case editFileTarget res of
                       Some (path, lineNum) \<Rightarrow> Inr ((m, w0), editInEditor path lineNum w0)
                     | None \<Rightarrow>
                         if res \<noteq> '''' then Inr ((m, w0), NewStatusMessage (Plain res))
                         else Inr ((m, w0), NoCmd)))))
      else if k = ''x'' then handleReactionKey W opts True s
      else if k = ''o'' then
        (case OnOpen opts of
           None \<Rightarrow> Inr (s, NoCmd)
         | Some action \<Rightarrow>
            (case list_SelectedItem W (list_m m) of
               None \<Rightarrow> Inr (s, NoCmd)
             | Some item \<Rightarrow> Inr (runCustomAction ''OnOpen'' action item s)))
      else
        (let (v, c) = viewport_Update W (KeyMsg k) (viewport m) in
         Inr ((m\<lparr>viewport := v\<rparr>, w), c)))"

definition updateListKey ::
  "('a, 'l, 'v) library \<Rightarrow> 'a SelectorOptions \<Rightarrow> string \<Rightarrow> ('a, 'l, 'v) state
     \<Rightarrow> panic + (('a, 'l, 'v) state \<times> cmd)" where
  "updateListKey W opts k s =
     (case s of (m, w) \<Rightarrow>
      if k = ''ctrl+c'' then Inr (s, Quit)
      else if k = ''?'' then Inr ((m\<lparr>showHelp := True\<rparr>, w), NoCmd)
      else if k = ''q'' then Inr ((m\<lparr>result := []\<rparr>, w), Quit)
      else if k \<in> set [''enter'', ''right'', ''l''] then
        (case list_SelectedItem W (list_m m) of
           None \<Rightarrow> Inr (listUpdate W (KeyMsg k) s)
         | Some item \<Rightarrow>
            (let showLoading = (\<lambda>w'.
                   ((m\<lparr>showDetail := True, loadingDetail := True,
                       viewport := viewport_SetContent W ''Loading...'' (viewport m)\<rparr>, w'),
                    LoadDetailCmd))
             in case OnSelect opts of
                  None \<Rightarrow> Inr (showLoading w)
                | Some action \<Rightarrow>
                   (let w0 = call ''OnSelect'' w in
                    case action item of
                      Inl err \<Rightarrow> Inr ((m, w0), NewStatusMessage (Red err))
                    | Inr statusMsg \<Rightarrow>
                        if statusMsg \<noteq> '''' then Inr ((m, w0), NewStatusMessage (Plain statusMsg))
                        else Inr (showLoading w0))))
      else if k = ''o'' then
        (case OnOpen opts of
           None \<Rightarrow> Inr (s, NoCmd)
         | Some action \<Rightarrow>
            (case list_SelectedItem W (list_m m) of
               None \<Rightarrow> Inr (s, NoCmd)
             | Some item \<Rightarrow> Inr (runCustomAction ''OnOpen'' action item s)))
      else if k \<in> set [''h'', ''tab''] then
        (if FilterFunc opts = None then Inr (s, NoCmd)
         else
           (let m1 = updateVisibleItems W opts (m\<lparr>filterActive := \<not> filterActive m\<rparr>) in
            if filterActive m1 then Inr ((m1, w), NewStatusMessage (Plain ''Hiding resolved''))
            else Inr ((m1, w), NewStatusMessage (Plain ''Showing all''))))
      else if k = ''i'' then
        (if RefreshItems opts \<noteq> None \<and> \<not> refreshing m
         then Inr ((m\<lparr>refreshing := True\<rparr>, w), RefreshCmd)
         else Inr (s, NoCmd))
      else if k \<in> set [''r'', ''u''] then
        (case ResolveAction opts of
           None \<Rightarrow> Inr (s, NoCmd)
         | Some action \<Rightarrow>
            (case list_SelectedItem W (list_m m) of
               None \<Rightarrow> Inr (s, NoCmd)
             | Some item \<Rightarrow>
                (let w0 = call ''ResolveAction'' w in
                 case action item of
                   Inl err \<Rightarrow> Inr ((m, w0), NewStatusMessage (Red err))
                 | Inr statusMsg \<Rightarrow>
                    (let m1 = m\<lparr>list_m := list_SetItem W (list_Index W (list_m m)) item (list_m m)\<rparr> in
                     if statusMsg \<noteq> '''' then Inr ((m1, w0), NewStatusMessage (Plain statusMsg))
                     else Inr ((m1, w0), NoCmd)))))
      else if k \<in> set [''R'', ''U''] then
        (if ResolveCommentPrepare opts = None then Inr (s, NoCmd)
         else
           (case list_SelectedItem W (list_m m) of
              None \<Rightarrow> Inr (s, NoCmd)
            | Some item \<Rightarrow> Inr (startEditorForAction opts item 2 s)))
      else if k = ''Q'' then Inr (handleQuoteKey W opts False s)
      else if k = ''C'' then Inr (handleQuoteContextKey W opts False s)
      else if k = ''a'' then handleAgentKey W opts False s
      else if k = ''e'' then
        (case EditAction opts of
           None \<Rightarrow> Inr (s, NoCmd)
         | Some action \<Rightarrow>
            (case list_SelectedItem W (list_m m) of
               None \<Rightarrow> Inr (s, NoCmd)
             | Some item \<Rightarrow>
                (let w0 = call ''EditAction'' w in
                 case action item of
                   Inl err \<Rightarrow> Inr ((m, w0), NewStatusMessage (Red err))
                 | Inr res \<Rightarrow>
                    (case editFileTarget res of
                       Some (path, lineNum) \<Rightarrow> Inr ((m, w0), editInEditor path lineNum w0)
                     | None \<Rightarrow>
                        (let m1 = m\<lparr>list_m := list_SetItem W (list_Index W (list_m m)) item (list_m m)\<rparr> in
                         if res \<noteq> '''' then Inr ((m1, w0), NewStatusMessage (Plain res))
                         else Inr ((m1, w0), NoCmd))))))
      else if k = ''x'' then handleReactionKey W opts False s
      else Inr (listUpdate W (KeyMsg k) s))"

definition updateViewKey ::
  "('a, 'l, 'v) library \<Rightarrow> 'a SelectorOptions \<Rightarrow> string \<Rightarrow> ('a, 'l, 'v) state
     \<Rightarrow> panic + (('a, 'l, 'v) state \<times> cmd)" where
  \<comment> \<open>what \<open>Update\<close> does with a key once the overlays and the two selection modes are passed\<close>
  "updateViewKey W opts k s =
     (case s of (m, w) \<Rightarrow>
      if list_SettingFilter W (list_m m) then Inr (listUpdate W (KeyMsg k) s)
      else if showDetail m then updateDetailKey W opts k s
      else updateListKey W opts k s)"

definition updateCommentSelectKey ::
  "('a, 'l, 'v) library \<Rightarrow> 'a SelectorOptions \<Rightarrow> string \<Rightarrow> ('a, 'l, 'v) state
     \<Rightarrow> panic + (('a, 'l, 'v) state \<times> cmd)" where
  "updateCommentSelectKey W opts k s =
     (case s of (m, w) \<Rightarrow>
      if k = ''enter'' then executeCommentAction opts s
      else if k = ''esc'' then
        Inr ((restoreDetailView W opts (exitCommentSelectMode m), w),
             NewStatusMessage (Plain ''Selection cancelled''))
      else if k \<in> set [''Q'', ''C'', ''a'', ''x''] then
        (if k = commentSelectAction m then
           (case cycleCommentSelection opts m of
              Inl p \<Rightarrow> Inl p
            | Inr m1 \<Rightarrow>
               (let m2 = (if commentSelectInDetail m1 then updateDetailViewWithHighlight W opts m1
                          else m1)
                in Inr ((m2, w), NewStatusMessage (Plain (commentSelectStatus m2)))))
         else updateViewKey W opts k (exitCommentSelectMode m, w))
      else updateViewKey W opts k (restoreDetailView W opts (exitCommentSelectMode m), w))"

definition updateKey ::
  "('a, 'l, 'v) library \<Rightarrow> 'a SelectorOptions \<Rightarrow> string \<Rightarrow> ('a, 'l, 'v) state
     \<Rightarrow> panic + (('a, 'l, 'v) state \<times> cmd)" where
  \<comment> \<open>the case \<open>tea.KeyMsg\<close>\<close>
  "updateKey W opts k s =
     (case s of (m, w) \<Rightarrow>
      if showHelp m then Inr ((m\<lparr>showHelp := False\<rparr>, w), NoCmd)
      else if confirmationMessage m \<noteq> '''' then Inr ((m\<lparr>confirmationMessage := ''''\<rparr>, w), NoCmd)
      else if reactionMode m then updateReactionKey opts k s
      else if commentSelectMode m then updateCommentSelectKey W opts k s
      else updateViewKey W opts k s)"

definition Update ::
  "('a, 'l, 'v) library \<Rightarrow> 'a SelectorOptions \<Rightarrow> 'a msg \<Rightarrow> ('a, 'l, 'v) state
     \<Rightarrow> panic + (('a, 'l, 'v) state \<times> cmd)" where
  "Update W opts msg s =
     (case s of (m, w) \<Rightarrow>
      (case msg of
         WindowSizeMsg width height \<Rightarrow>
           (let listHeight = height - 2 - 3 in
            Inr ((m\<lparr>windowSize := (width, height),
                    list_m := list_SetSize W width listHeight (list_m m),
                    viewport := viewport_SetContent W '''' (viewport_New W width listHeight)\<rparr>, w),
                 NoCmd))
       | loadDetailMsg \<Rightarrow>
           (let m1 = m\<lparr>loadingDetail := False\<rparr> in
            case list_SelectedItem W (list_m m1) of
              None \<Rightarrow> Inr ((m1, w), NoCmd)
            | Some item \<Rightarrow>
               (let highlightIdx = (if commentSelectMode m1 then commentSelectIdx m1 else - 1) in
                Inr ((m1\<lparr>viewport := viewport_GotoTop W
                          (viewport_SetContent W
                             (PreviewWithHighlight (Renderer opts) item highlightIdx) (viewport m1))\<rparr>,
                      w), NoCmd)))
       | refreshFinishedMsg its err \<Rightarrow>
           (let m1 = m\<lparr>refreshing := False\<rparr> in
            case err of
              Some e \<Rightarrow> Inr ((m1, w), NewStatusMessage (Red (''Refresh failed: '' @ e)))
            | None \<Rightarrow>
               (case its of
                  Some xs \<Rightarrow>
                    (let (l, c) = list_SetItems W xs (list_m m1) in
                     Inr ((m1\<lparr>items := xs, list_m := l\<rparr>, w),
                          Batch [c, NewStatusMessage
                            (Green (''Refreshed: '' @ Itoa (int (length xs)) @ '' items''))]))
                | None \<Rightarrow> Inr ((m1, w), NoCmd)))
       | editorFinishedMsg err \<Rightarrow> Inr (handleEditorFinished opts err s)
       | agentFinishedMsg err \<Rightarrow>
           (case err of
              Some e \<Rightarrow> Inr (s, NewStatusMessage (Red (''Agent error: '' @ e)))
            | None \<Rightarrow> Inr (s, NewStatusMessage (Green ''Agent completed'')))
       | KeyMsg k \<Rightarrow> updateKey W opts k s
       | OtherMsg n \<Rightarrow> Inr (listUpdate W msg s)))"

section \<open>Select: the run of the program\<close>

text \<open>
  The program feeds \<open>Update\<close> the messages in the order they arrive, until a command of
  \<open>Update\<close> is \<open>tea.Quit\<close>. Between two messages the world may change (the editor writes
  its file). A run on a finite list of events that has not quit is still waiting for
  input: it has no result (\<open>None\<close>). A panic ends the run with an error.
\<close>

datatype 'a event = Deliver "'a msg" | Outside "world \<Rightarrow> world"

fun hasQuit :: "cmd \<Rightarrow> bool" where
  "hasQuit Quit = True"
| "hasQuit (Batch cs) = list_ex hasQuit cs"
| "hasQuit _ = False"

datatype select_error = ErrNoSelection | RunError error | RunPanic panic

fun run ::
  "('a, 'l, 'v) library \<Rightarrow> 'a SelectorOptions \<Rightarrow> ('a, 'l, 'v) state \<Rightarrow> 'a event list
     \<Rightarrow> (select_error + ('a, 'l, 'v) SelectionModel) option" where
  "run W opts s [] = None"
| "run W opts s (Outside f # es) = run W opts (fst s, f (snd s)) es"
| "run W opts s (Deliver msg # es) =
     (case Update W opts msg s of
        Inl p \<Rightarrow> Some (Inl (RunPanic p))
      | Inr (s', c) \<Rightarrow> if hasQuit c then Some (Inr (fst s')) else run W opts s' es)"

definition initialModel ::
  "('a, 'l, 'v) library \<Rightarrow> 'a SelectorOptions \<Rightarrow> ('a, 'l, 'v) SelectionModel" where
  \<comment> \<open>the model \<open>Select\<close> builds: the fields it names, the others at their zero value\<close>
  "initialModel W opts =
     (let m = \<lparr>list_m = list_New W (Items opts), items = Items opts, result = [],
                filterActive = FilterDefault opts, showDetail = False, loadingDetail = False,
                showHelp = False, confirmationMessage = '''', refreshing = False,
                viewport = viewport_Zero W, windowSize = (0, 0),
                reactionMode = False, reactionIdx = 0, reactionCommentID = 0,
                commentSelectMode = False, commentSelectAction = '''', commentSelectIdx = 0,
                commentSelectItem = zeroT W, commentSelectInDetail = False,
                commentSelectStatus = '''',
                pendingEditorItem = zeroT W, pendingEditorTmpFile = '''',
                pendingEditorAction = 0\<rparr>
      in if FilterDefault opts \<and> FilterFunc opts \<noteq> None then updateVisibleItems W opts m else m)"

definition Select ::
  "('a, 'l, 'v) library \<Rightarrow> 'a SelectorOptions \<Rightarrow> world \<Rightarrow> error option \<Rightarrow> 'a event list
     \<Rightarrow> (select_error + 'a) option" where
  \<comment> \<open>the fourth argument is the error of \<open>p.Run()\<close> when the terminal driver fails\<close>
  "Select W opts w driver events =
     (case driver of
        Some err \<Rightarrow> Some (Inl (RunError err))
      | None \<Rightarrow>
         (case run W opts (initialModel W opts, w) events of
            None \<Rightarrow> None
          | Some (Inl e) \<Rightarrow> Some (Inl e)
          | Some (Inr final) \<Rightarrow>
              (case result final of
                 [] \<Rightarrow> Some (Inl ErrNoSelection)
               | x # _ \<Rightarrow> Some (Inr x))))"

section \<open>A concrete instance\<close>

text \<open>
  An item type, a renderer, a set of callbacks, a list widget and a world on which the
  functions above can be evaluated: a thread of three comments and a single comment, in
  the shape of the \<open>BrowseItem\<close> of the browse command (a comment, its replies, the index
  of the selected comment).
\<close>

record testItem =
  body :: string
  replies :: nat
  selectedCommentIdx :: int

definition testRenderer :: "testItem ItemRenderer" where
  "testRenderer =
     \<lparr>PreviewWithHighlight = (\<lambda>item idx. body item),
      ThreadCommentCount = (\<lambda>item. 1 + int (replies item)),
      ThreadCommentPreview = (\<lambda>item idx. ''@alice: '' @ body item),
      WithSelectedComment = (\<lambda>item idx. item\<lparr>selectedCommentIdx := idx\<rparr>)\<rparr>"

definition threadItem :: testItem where
  "threadItem = \<lparr>body = ''please rename'', replies = 2, selectedCommentIdx = 0\<rparr>"

definition singleItem :: testItem where
  "singleItem = \<lparr>body = ''typo'', replies = 0, selectedCommentIdx = 0\<rparr>"

definition testOptions :: "testItem SelectorOptions" where
  "testOptions =
     \<lparr>Items = [threadItem, singleItem],
      Renderer = testRenderer,
      OnSelect = None,
      OnOpen = Some (\<lambda>item. Inr ''opened''),
      FilterFunc = None,
      FilterDefault = False,
      RefreshItems = None,
      ResolveAction = Some (\<lambda>item. Inl ''resolve failed''),
      ResolveCommentPrepare = Some (\<lambda>item. Inr (''# reply to '' @ body item)),
      ResolveCommentComplete = Some (\<lambda>item text. Inr ''Thread resolved''),
      QuotePrepare = Some (\<lambda>item. Inr (''> '' @ body item @ '' #'' @ Itoa (selectedCommentIdx item))),
      QuoteComplete = Some (\<lambda>item text. Inr ''https://github.com/o/r/pull/1#discussion_r2''),
      QuoteContextPrepare = None,
      QuoteContextComplete = None,
      AgentAction = Some (\<lambda>item. Inr ''''),
      EditAction = None,
      ReactionAction = Some (\<lambda>item. Inr 42),
      ReactionComplete = Some (\<lambda>commentID emoji. Inr (''Added '' @ emoji))\<rparr>"

definition testLibrary :: "(testItem, testItem list \<times> nat, string \<times> int) library" where
  \<comment> \<open>a list widget that is its items and a cursor, a viewport that is its content and offset\<close>
  "testLibrary =
     \<lparr>zeroT = \<lparr>body = '''', replies = 0, selectedCommentIdx = 0\<rparr>,
      list_New = (\<lambda>xs. (xs, 0)),
      list_SelectedItem = (\<lambda>(xs, i). if i < length xs then Some (xs ! i) else None),
      list_SettingFilter = (\<lambda>l. False),
      list_Index = (\<lambda>(xs, i). int i),
      list_SetSize = (\<lambda>width height l. l),
      list_SetItems = (\<lambda>xs (ys, i). ((xs, i), NoCmd)),
      list_SetItem = (\<lambda>i x (xs, j). (if 0 \<le> i then xs[nat i := x] else xs, j)),
      list_Update = (\<lambda>msg (xs, i).
         if msg = KeyMsg ''down'' \<and> Suc i < length xs then ((xs, Suc i), NoCmd)
         else if msg = KeyMsg ''up'' then ((xs, i - 1), NoCmd)
         else ((xs, i), NoCmd)),
      viewport_Zero = ('''', 0),
      viewport_New = (\<lambda>width height. ('''', 0)),
      viewport_SetContent = (\<lambda>content (old, y). (content, y)),
      viewport_GotoTop = (\<lambda>(content, y). (content, 0)),
      viewport_PageDown = (\<lambda>(content, y). (content, y + 1)),
      viewport_PageUp = (\<lambda>(content, y). (content, if y < 1 then 0 else y - 1)),
      viewport_SetYOffset = (\<lambda>n (content, y). (content, n)),
      viewport_Update = (\<lambda>msg v. (v, NoCmd))\<rparr>"

definition testWorld :: world where
  "testWorld =
     \<lparr>files = Map.empty,
      createTemp = (\<lambda>n. Inr (''/tmp/gh-prreview-'' @ natDigits n @ ''.md'')),
      tempCount = 0,
      writeError = None,
      EDITOR = '''',
      GH_PRREVIEW_AGENT = '''',
      calls = []\<rparr>"

definition testModel :: "(testItem, testItem list \<times> nat, string \<times> int) SelectionModel" where
  "testModel = initialModel testLibrary testOptions"

section \<open>Properties\<close>

subsection \<open>Helper lemmas\<close>

lemma Contains_iff: "Contains s sub \<longleftrightarrow> (\<exists>xs ys. s = xs @ sub @ ys)"
proof (induction s)
  case Nil
  then show ?case by auto
next
  case (Cons c cs)
  have p: "HasPrefix (c # cs) sub \<longleftrightarrow> (\<exists>ys. c # cs = sub @ ys)"
    unfolding HasPrefix_def by (metis append_eq_conv_conj append_take_drop_id)
  show ?case
  proof
    assume "Contains (c # cs) sub"
    then show "\<exists>xs ys. c # cs = xs @ sub @ ys"
      using Cons.IH p by (metis Contains.simps(2) append_Cons append_Nil)
  next
    assume "\<exists>xs ys. c # cs = xs @ sub @ ys"
    then obtain xs ys where e: "c # cs = xs @ sub @ ys" by blast
    show "Contains (c # cs) sub"
    proof (cases xs)
      case Nil
      then have "HasPrefix (c # cs) sub" using e p by auto
      then show ?thesis by simp
    next
      case (Cons x xs')
      then have "cs = xs' @ sub @ ys" using e by simp
      then show ?thesis using Cons.IH by auto
    qed
  qed
qed

lemma goRem_nonneg: "0 \<le> a \<Longrightarrow> 0 < b \<Longrightarrow> goRem a b = a mod b"
  unfolding goRem_def by (simp add: smod_int_alt_def sgn_if)

lemmas test_defs =
  testModel_def initialModel_def testLibrary_def testOptions_def testRenderer_def
  testWorld_def threadItem_def singleItem_def

subsection \<open>Reactions\<close>

text \<open>
  C8. The catalog of reactions has exactly the eight entries +1, -1, laugh, confused,
  heart, hooray, rocket, eyes, in this order; and in the reaction mode, from every index
  \<open>i\<close> of the catalog (any \<open>i\<close> that is not negative), the key \<open>x\<close> moves the selection to
  \<open>(i + 1) mod 8\<close> and changes nothing else.
\<close>

theorem reaction_cycling_wraps_mod_8:
  assumes "modeOf m = ReactionPick" and "0 \<le> reactionIdx m"
  shows "map fst reactionEmojis
           = [''+1'', ''-1'', ''laugh'', ''confused'', ''heart'', ''hooray'', ''rocket'', ''eyes'']
       \<and> length reactionEmojis = 8
       \<and> (\<exists>c. Update W opts (KeyMsg ''x'') (m, w)
                 = Inr ((m\<lparr>reactionIdx := (reactionIdx m + 1) mod 8\<rparr>, w), c))"
proof -
  have len: "int (length reactionEmojis) = 8" by (simp add: reactionEmojis_def)
  have mode: "\<not> showHelp m" "confirmationMessage m = ''''" "reactionMode m"
    using assms(1) unfolding modeOf_def by (auto split: if_splits)
  have r: "goRem (reactionIdx m + 1) 8 = (reactionIdx m + 1) mod 8"
    using assms(2) by (simp add: goRem_nonneg)
  have rng: "0 \<le> (reactionIdx m + 1) mod 8" "(reactionIdx m + 1) mod 8 < 8" by simp_all
  show ?thesis
    using mode rng
    by (auto simp: Update_def updateKey_def updateReactionKey_def showReactionStatus_def
        emojiAt_def len r reactionEmojis_def split: sum.splits prod.splits)
qed

theorem reaction_cycling_wraps_mod_8_witness:
  "modeOf (testModel\<lparr>reactionMode := True, reactionIdx := 7\<rparr>) = ReactionPick
   \<and> (\<exists>c. Update testLibrary testOptions (KeyMsg ''x'')
              (testModel\<lparr>reactionMode := True, reactionIdx := 7\<rparr>, testWorld)
            = Inr ((testModel\<lparr>reactionMode := True, reactionIdx := 0\<rparr>, testWorld), c))"
proof -
  have h: "modeOf (testModel\<lparr>reactionMode := True, reactionIdx := 7\<rparr>) = ReactionPick"
    by (simp add: modeOf_def test_defs)
  show ?thesis
    using h reaction_cycling_wraps_mod_8 [OF h, of testLibrary testOptions testWorld]
    by simp
qed


end
